theory Spec2Isabelle
  imports Main "HOL-Library.Word"
begin

section \<open>Data model of \<open>sora_signaling.cpp\<close>\<close>

text \<open>
  The signaling client \<open>SoraSignaling\<close> is a class whose member functions mutate its fields
  and call into three collaborators: the \<open>Websocket\<close> transport (\<open>ws_\<close>), the negotiated
  \<open>RTCConnection\<close> (\<open>connection_\<close>) and the \<open>RTCManager\<close> (\<open>manager_\<close>). Each member
  function is embedded as a function from the client's fields to an outcome, the updated
  fields and the list of calls it made on the collaborators, in program order.
\<close>

subsection \<open>Values of \<open>boost::json\<close>\<close>

text \<open>
  \<open>boost::json::value\<close> has the kinds null, bool, int64, uint64, double, string, array and
  object. An object keeps its members in insertion order with unique keys, so it is an
  association list. A double is kept as its 64 bits: no function of the client reads one.
\<close>

datatype json =
    JNull
  | JBool bool
  | JInt64 int
  | JUint64 nat
  | JDouble "64 word"
  | JString string
  | JArray "json list"
  | JObject "(string \<times> json) list"

text \<open>
  The checked accessors throw when the value has another kind, and \<open>at\<close> throws when the
  key is missing; \<open>None\<close> stands for the exception.
\<close>

fun is_null :: "json \<Rightarrow> bool" where
  "is_null JNull = True"
| "is_null _ = False"

fun as_object :: "json \<Rightarrow> (string \<times> json) list option" where
  "as_object (JObject ms) = Some ms"
| "as_object _ = None"

fun as_array :: "json \<Rightarrow> json list option" where
  "as_array (JArray xs) = Some xs"
| "as_array _ = None"

fun as_string :: "json \<Rightarrow> string option" where
  "as_string (JString s) = Some s"
| "as_string _ = None"

fun as_bool :: "json \<Rightarrow> bool option" where
  "as_bool (JBool b) = Some b"
| "as_bool _ = None"

text \<open>\<open>object::find\<close>: the member with that key, or \<open>end()\<close>.\<close>

definition find_member :: "(string \<times> json) list \<Rightarrow> string \<Rightarrow> json option" where
  "find_member ms k = map_of ms k"

text \<open>\<open>value::at(key)\<close> is \<open>as_object().at(key)\<close>.\<close>

definition at :: "json \<Rightarrow> string \<Rightarrow> json option" where
  "at j k = (case as_object j of None \<Rightarrow> None | Some ms \<Rightarrow> find_member ms k)"

text \<open>
  \<open>object::operator[]\<close> followed by an assignment: the member is overwritten where the key
  exists and appended otherwise.
\<close>

fun assign_member :: "string \<Rightarrow> json \<Rightarrow> (string \<times> json) list \<Rightarrow> (string \<times> json) list" where
  "assign_member k v [] = [(k, v)]"
| "assign_member k v ((k', v') # ms) =
     (if k' = k then (k, v) # ms else (k', v') # assign_member k v ms)"

text \<open>
  \<open>m[outer].as_object()[inner] = v\<close>: \<open>operator[]\<close> creates a null member where \<open>outer\<close> is
  missing, and \<open>as_object\<close> throws unless that member is an object.
\<close>

definition assign_nested ::
  "string \<Rightarrow> string \<Rightarrow> json \<Rightarrow> (string \<times> json) list \<Rightarrow> (string \<times> json) list option" where
  "assign_nested outer inner v ms =
     (case find_member ms outer of
        Some (JObject sub) \<Rightarrow> Some (assign_member outer (JObject (assign_member inner v sub)) ms)
      | _ \<Rightarrow> None)"

text \<open>
  \<open>std::string(s.c_str())\<close>: the copy made from the C string ends at the first NUL
  character of \<open>s\<close>.
\<close>

definition c_str :: "string \<Rightarrow> string" where
  "c_str s = takeWhile (\<lambda>c. c \<noteq> CHR 0x00) s"

subsection \<open>Enumerations and configuration\<close>

datatype IceConnectionState =
    kIceConnectionNew
  | kIceConnectionChecking
  | kIceConnectionConnected
  | kIceConnectionCompleted
  | kIceConnectionFailed
  | kIceConnectionDisconnected
  | kIceConnectionClosed
  | kIceConnectionMax

fun iceConnectionStateToString :: "IceConnectionState \<Rightarrow> string" where
  "iceConnectionStateToString kIceConnectionNew = ''new''"
| "iceConnectionStateToString kIceConnectionChecking = ''checking''"
| "iceConnectionStateToString kIceConnectionConnected = ''connected''"
| "iceConnectionStateToString kIceConnectionCompleted = ''completed''"
| "iceConnectionStateToString kIceConnectionFailed = ''failed''"
| "iceConnectionStateToString kIceConnectionDisconnected = ''disconnected''"
| "iceConnectionStateToString kIceConnectionClosed = ''closed''"
| "iceConnectionStateToString kIceConnectionMax = ''max''"

datatype Role = Sendonly | Recvonly | Sendrecv

text \<open>
  \<open>SoraSignalingConfig\<close> is declared in \<open>sora_signaling.h\<close>; these are the fields that
  \<open>sora_signaling.cpp\<close> reads, with the types its uses of them require.
\<close>

record SoraSignalingConfig =
  signaling_url :: string
  channel_id :: string
  role :: Role
  multistream :: bool
  metadata :: json
  video_codec :: string
  video_bitrate :: int
  audio_codec :: string
  audio_bitrate :: int
  unity_version :: string
  insecure :: bool

record URLParts =
  scheme :: string
  host :: string
  port :: string

text \<open>\<open>boost::system::error_code\<close>: success, the distinguished abort, or another error.\<close>

datatype error_code = ec_success | operation_aborted | ec_failure nat

subsection \<open>Collaborators\<close>

record IceServer =
  uri :: string
  username :: string
  password :: string

text \<open>
  A \<open>Websocket\<close> is constructed plain, or with \<open>ssl_tag\<close> and the \<open>insecure\<close> flag.
\<close>

datatype Websocket = PlainWebsocket | SslWebsocket bool

text \<open>
  Modelled from the spec: \<open>RTCManager::createConnection\<close> is not part of the source file.
  The spec has an offer construct the Connection from the parsed ICE server list; each call
  yields a new Connection object, told apart from the earlier ones by a serial number,
  which is the number of Connections the manager had made before.
\<close>

record RTCConnection =
  serial :: nat
  servers :: "IceServer list"

text \<open>
  A statistics report and a session description are used only through \<open>ToJson\<close> and
  \<open>ToString\<close>, so each is represented by the text that call returns.
\<close>

datatype RTCStatsReport = RTCStatsReport (ToJson: string)

datatype SessionDescription = SessionDescription (ToString: string)

text \<open>
  What \<open>sora_signaling.cpp\<close> takes from outside: the JSON library's \<open>parse\<close> (\<open>None\<close> when
  it throws on text that is not JSON) and \<open>serialize\<close>, \<open>URLParts::Parse\<close> (\<open>None\<close> when it
  returns false), and the string macros of \<open>sora_version.h\<close>.
\<close>

record externals =
  json_parse :: "string \<Rightarrow> json option"
  json_serialize :: "json \<Rightarrow> string"
  url_parse :: "string \<Rightarrow> URLParts option"
  SORA_CLIENT :: string
  LIBWEBRTC :: string
  SORA_UNITY_SDK_PLATFORM :: string

subsection \<open>The client and what its member functions do to the outside\<close>

record SoraSignaling =
  rtc_state :: IceConnectionState
  connected :: bool
  connection :: "RTCConnection option"
  ws :: "Websocket option"
  config :: SoraSignalingConfig
  on_notify :: bool
  parts :: URLParts
  manager :: nat

text \<open>
  \<open>on_notify\<close> tells whether the \<open>std::function\<close> holds a callable; \<open>manager\<close> is the
  state of the \<open>RTCManager\<close> behind \<open>manager_\<close>, the number of Connections it has made.
\<close>

datatype severity = LS_INFO | LS_ERROR

datatype log_item = Str string | Ec error_code | State IceConnectionState

text \<open>
  The two continuations handed to \<open>SetOffer\<close> differ only in the type of the message that
  is sent at their end.
\<close>

datatype reply = answer | update

fun reply_type :: "reply \<Rightarrow> string" where
  "reply_type answer = ''answer''"
| "reply_type update = ''update''"

datatype effect =
    Log severity "log_item list"
  | NewWebsocket Websocket
  | WsConnect string
  | WsRead
  | WsWriteText string
  | WsClose
  | CreateConnection "IceServer list"
  | SetOffer RTCConnection string reply
  | CreateAnswer RTCConnection reply
  | GetStats RTCConnection
  | Notify string
  | Post IceConnectionState

text \<open>
  A member function returns, or leaves by an exception of the JSON library, or dereferences
  a null \<open>ws_\<close> or \<open>connection_\<close>. The fields and the calls made up to that point are
  kept in every case.
\<close>

datatype failure = JsonException | NullDereference

type_synonym result = "failure option \<times> SoraSignaling \<times> effect list"

definition returns :: "SoraSignaling \<Rightarrow> effect list \<Rightarrow> result" where
  "returns st es = (None, st, es)"

definition fails :: "failure \<Rightarrow> SoraSignaling \<Rightarrow> effect list \<Rightarrow> result" where
  "fails f st es = (Some f, st, es)"

text \<open>Statement after statement: the second runs only if the first returned.\<close>

definition and_then :: "result \<Rightarrow> (SoraSignaling \<Rightarrow> result) \<Rightarrow> result" where
  "and_then r k =
     (case r of
        (Some f, st, es) \<Rightarrow> (Some f, st, es)
      | (None, st, es) \<Rightarrow> (case k st of (out, st', es') \<Rightarrow> (out, st', es @ es')))"

definition outcome :: "result \<Rightarrow> failure option" where
  "outcome r = fst r"

definition fields :: "result \<Rightarrow> SoraSignaling" where
  "fields r = fst (snd r)"

definition effects :: "result \<Rightarrow> effect list" where
  "effects r = snd (snd r)"

section \<open>Member functions\<close>

subsection \<open>Accessors, construction and release\<close>

definition getRTCConnectionState :: "SoraSignaling \<Rightarrow> IceConnectionState" where
  "getRTCConnectionState st = rtc_state st"

definition getRTCConnection :: "SoraSignaling \<Rightarrow> RTCConnection option" where
  "getRTCConnection st =
     (if rtc_state st = kIceConnectionConnected then connection st else None)"

text \<open>
  Modelled from the spec: the constructor stores \<open>manager\<close>, \<open>config\<close> and \<open>on_notify\<close>; the
  initial values of the other members are given in \<open>sora_signaling.h\<close>, which is not part
  of the source file. The spec starts the connectivity state machine in \<open>New\<close>, with the
  control channel not connected and the Connection absent; no transport exists before
  \<open>Connect\<close> constructs one. \<open>Init\<close> returns true, so \<open>Create\<close> always returns the client.
\<close>

definition Create :: "nat \<Rightarrow> SoraSignalingConfig \<Rightarrow> bool \<Rightarrow> SoraSignaling" where
  "Create mgr cfg notify =
     \<lparr>rtc_state = kIceConnectionNew, connected = False, connection = None, ws = None,
      config = cfg, on_notify = notify,
      parts = \<lparr>scheme = [], host = [], port = []\<rparr>, manager = mgr\<rparr>"

text \<open>
  \<open>Release\<close> moves \<open>connection_\<close> into a local, which leaves the member empty, and drops
  the local.
\<close>

definition Release :: "SoraSignaling \<Rightarrow> SoraSignaling" where
  "Release st = st\<lparr>connection := None\<rparr>"

subsection \<open>Calls through \<open>ws_\<close>\<close>

definition ws_Read :: "SoraSignaling \<Rightarrow> result" where
  "ws_Read st =
     (case ws st of None \<Rightarrow> fails NullDereference st [] | Some w \<Rightarrow> returns st [WsRead])"

definition ws_WriteText :: "string \<Rightarrow> SoraSignaling \<Rightarrow> result" where
  "ws_WriteText text st =
     (case ws st of
        None \<Rightarrow> fails NullDereference st []
      | Some w \<Rightarrow> returns st [WsWriteText text])"

definition ws_Close :: "SoraSignaling \<Rightarrow> result" where
  "ws_Close st =
     (case ws st of None \<Rightarrow> fails NullDereference st [] | Some w \<Rightarrow> returns st [WsClose])"

definition DoRead :: "SoraSignaling \<Rightarrow> result" where
  "DoRead st = ws_Read st"

definition Close :: "SoraSignaling \<Rightarrow> result" where
  "Close st = ws_Close st"

definition OnClose :: "error_code \<Rightarrow> SoraSignaling \<Rightarrow> result" where
  "OnClose ec st =
     (if ec \<noteq> ec_success then returns st [Log LS_ERROR [Str ''Failed to close: ec='', Ec ec]]
      else returns st [])"

subsection \<open>Outbound messages\<close>

definition role_name :: "Role \<Rightarrow> string" where
  "role_name r =
     (if r = Sendonly then ''sendonly'' else if r = Recvonly then ''recvonly'' else ''sendrecv'')"

text \<open>
  The JSON object that \<open>DoSendConnect\<close> builds before it serializes it, statement by
  statement; \<open>None\<close> if one of the \<open>as_object\<close> calls throws.
\<close>

definition connect_message ::
  "externals \<Rightarrow> SoraSignalingConfig \<Rightarrow> (string \<times> json) list option" where
  "connect_message X cfg =
     (let m0 = [(''type'', JString ''connect''),
                (''role'', JString (role_name (role cfg))),
                (''multistream'', JBool (multistream cfg)),
                (''channel_id'', JString (channel_id cfg)),
                (''sora_client'', JString (SORA_CLIENT X)),
                (''libwebrtc'', JString (LIBWEBRTC X)),
                (''environment'',
                 JString (''Unity '' @ unity_version cfg @ '' for '' @ SORA_UNITY_SDK_PLATFORM X))];
          m1 = (if \<not> is_null (metadata cfg) then assign_member ''metadata'' (metadata cfg) m0
                else m0);
          m2 = assign_member ''video'' (JObject []) m1
      in case assign_nested ''video'' ''codec_type'' (JString (video_codec cfg)) m2 of
           None \<Rightarrow> None
         | Some m3 \<Rightarrow>
           (case (if video_bitrate cfg \<noteq> 0
                  then assign_nested ''video'' ''bit_rate'' (JInt64 (video_bitrate cfg)) m3
                  else Some m3) of
              None \<Rightarrow> None
            | Some m4 \<Rightarrow>
              (let m5 = assign_member ''audio'' (JObject []) m4
               in case assign_nested ''audio'' ''codec_type'' (JString (audio_codec cfg)) m5 of
                    None \<Rightarrow> None
                  | Some m6 \<Rightarrow>
                    (if audio_bitrate cfg \<noteq> 0
                     then assign_nested ''audio'' ''bit_rate'' (JInt64 (audio_bitrate cfg)) m6
                     else Some m6))))"

definition DoSendConnect :: "externals \<Rightarrow> SoraSignaling \<Rightarrow> result" where
  "DoSendConnect X st =
     (case connect_message X (config st) of
        None \<Rightarrow> fails JsonException st []
      | Some m \<Rightarrow> ws_WriteText (json_serialize X (JObject m)) st)"

definition pong_message :: json where
  "pong_message = JObject [(''type'', JString ''pong'')]"

definition DoSendPong :: "externals \<Rightarrow> SoraSignaling \<Rightarrow> result" where
  "DoSendPong X st = ws_WriteText (json_serialize X pong_message) st"

text \<open>
  The overload taking a report builds the text by concatenation around \<open>report->ToJson()\<close>,
  without the JSON library.
\<close>

definition pong_stats_text :: "RTCStatsReport \<Rightarrow> string" where
  \<open>pong_stats_text report = ''{"type":"pong","stats":'' @ ToJson report @ ''}''\<close>

definition DoSendPong_report :: "RTCStatsReport \<Rightarrow> SoraSignaling \<Rightarrow> result" where
  "DoSendPong_report report st = ws_WriteText (pong_stats_text report) st"

definition description_message :: "reply \<Rightarrow> string \<Rightarrow> json" where
  "description_message r sdp = JObject [(''type'', JString (reply_type r)), (''sdp'', JString sdp)]"

definition candidate_message :: "string \<Rightarrow> json" where
  "candidate_message sdp = JObject [(''type'', JString ''candidate''), (''candidate'', JString sdp)]"

subsection \<open>Connect\<close>

text \<open>
  \<open>Connect\<close> returns a bool and cannot fail otherwise: \<open>ws_\<close> has just been set when it is
  dereferenced. The local \<open>port\<close> is computed and never used, so it is left out.
\<close>

definition Connect :: "externals \<Rightarrow> SoraSignaling \<Rightarrow> bool \<times> SoraSignaling \<times> effect list" where
  "Connect X st =
     (let entry = Log LS_INFO [Str ''Connect''];
          target = Log LS_INFO [Str ''Connect to '', Str (host (parts st))];
          url = signaling_url (config st)
      in if connected st then (False, st, [entry])
         else case url_parse X url of
                None \<Rightarrow>
                  (False, st, [entry, target, Log LS_ERROR [Str ''Invalid Signaling URL: '', Str url]])
              | Some p \<Rightarrow>
                  if scheme p = ''ws''
                  then (True, st\<lparr>ws := Some PlainWebsocket\<rparr>,
                        [entry, target, NewWebsocket PlainWebsocket, WsConnect url])
                  else if scheme p = ''wss''
                  then (True, st\<lparr>ws := Some (SslWebsocket (insecure (config st)))\<rparr>,
                        [entry, target, NewWebsocket (SslWebsocket (insecure (config st))),
                         WsConnect url])
                  else (False, st, [entry, target]))"

definition OnConnect :: "externals \<Rightarrow> error_code \<Rightarrow> SoraSignaling \<Rightarrow> result" where
  "OnConnect X ec st =
     (if ec \<noteq> ec_success
      then returns st [Log LS_INFO [Str ''OnConnect''],
                       Log LS_ERROR [Str ''Failed Websocket handshake: '', Ec ec]]
      else and_then
             (returns (st\<lparr>connected := True\<rparr>)
                [Log LS_INFO [Str ''OnConnect''],
                 Log LS_INFO [Str ''Signaling Websocket is connected'']])
             (\<lambda>s. and_then (DoRead s) (DoSendConnect X)))"

subsection \<open>Creating the Connection from an offer's configuration\<close>

text \<open>The inner loop of \<open>CreatePeerFromConfig\<close>: one ICE server for each url.\<close>

fun servers_of_urls :: "string \<Rightarrow> string \<Rightarrow> json list \<Rightarrow> IceServer list option" where
  "servers_of_urls user cred [] = Some []"
| "servers_of_urls user cred (url # urls) =
     (case as_string url of
        None \<Rightarrow> None
      | Some u \<Rightarrow>
        (case servers_of_urls user cred urls of
           None \<Rightarrow> None
         | Some rest \<Rightarrow> Some (\<lparr>uri = c_str u, username = user, password = cred\<rparr> # rest)))"

text \<open>The body of the outer loop, for one element of \<open>iceServers\<close>.\<close>

definition servers_of_entry :: "json \<Rightarrow> IceServer list option" where
  "servers_of_entry jserver =
     (case Option.bind (at jserver ''username'') as_string of
        None \<Rightarrow> None
      | Some user \<Rightarrow>
        (case Option.bind (at jserver ''credential'') as_string of
           None \<Rightarrow> None
         | Some cred \<Rightarrow>
           (case Option.bind (at jserver ''urls'') as_array of
              None \<Rightarrow> None
            | Some urls \<Rightarrow> servers_of_urls (c_str user) (c_str cred) urls)))"

fun servers_of_entries :: "json list \<Rightarrow> IceServer list option" where
  "servers_of_entries [] = Some []"
| "servers_of_entries (jserver # jservers) =
     (case servers_of_entry jserver of
        None \<Rightarrow> None
      | Some first \<Rightarrow>
        (case servers_of_entries jservers of
           None \<Rightarrow> None
         | Some rest \<Rightarrow> Some (first @ rest)))"

definition ice_servers_of_config :: "json \<Rightarrow> IceServer list option" where
  "ice_servers_of_config jconfig =
     (case Option.bind (at jconfig ''iceServers'') as_array of
        None \<Rightarrow> None
      | Some jservers \<Rightarrow> servers_of_entries jservers)"

text \<open>
  Every exception of \<open>CreatePeerFromConfig\<close> is thrown by the loops, before the assignment
  to \<open>connection_\<close>. The assignment is unconditional.
\<close>

definition CreatePeerFromConfig :: "json \<Rightarrow> SoraSignaling \<Rightarrow> result" where
  "CreatePeerFromConfig jconfig st =
     (case ice_servers_of_config jconfig of
        None \<Rightarrow> fails JsonException st []
      | Some ice_servers \<Rightarrow>
          returns (st\<lparr>connection := Some \<lparr>serial = manager st, servers = ice_servers\<rparr>,
                      manager := Suc (manager st)\<rparr>)
            [CreateConnection ice_servers])"

subsection \<open>The read handler\<close>

text \<open>Calls through \<open>connection_\<close>; the pointer is dereferenced without a check.\<close>

definition connection_SetOffer :: "string \<Rightarrow> reply \<Rightarrow> SoraSignaling \<Rightarrow> result" where
  "connection_SetOffer sdp r st =
     (case connection st of
        None \<Rightarrow> fails NullDereference st []
      | Some c \<Rightarrow> returns st [SetOffer c sdp r])"

definition connection_CreateAnswer :: "reply \<Rightarrow> SoraSignaling \<Rightarrow> result" where
  "connection_CreateAnswer r st =
     (case connection st of
        None \<Rightarrow> fails NullDereference st []
      | Some c \<Rightarrow> returns st [CreateAnswer c r])"

definition connection_GetStats :: "SoraSignaling \<Rightarrow> result" where
  "connection_GetStats st =
     (case connection st of
        None \<Rightarrow> fails NullDereference st []
      | Some c \<Rightarrow> returns st [GetStats c])"

text \<open>The branches of the dispatch on \<open>type\<close>, each up to the final \<open>DoRead\<close>.\<close>

definition on_offer :: "json \<Rightarrow> SoraSignaling \<Rightarrow> result" where
  "on_offer json_message st =
     (case at json_message ''config'' of
        None \<Rightarrow> fails JsonException st []
      | Some jconfig \<Rightarrow>
          and_then (CreatePeerFromConfig jconfig st)
            (\<lambda>s. case Option.bind (at json_message ''sdp'') as_string of
                    None \<Rightarrow> fails JsonException s []
                  | Some sdp \<Rightarrow> connection_SetOffer (c_str sdp) answer s))"

definition on_update :: "json \<Rightarrow> SoraSignaling \<Rightarrow> result" where
  "on_update json_message st =
     (case Option.bind (at json_message ''sdp'') as_string of
        None \<Rightarrow> fails JsonException st []
      | Some sdp \<Rightarrow> connection_SetOffer (c_str sdp) update st)"

definition on_notify_message :: "string \<Rightarrow> SoraSignaling \<Rightarrow> result" where
  "on_notify_message text st = (if on_notify st then returns st [Notify text] else returns st [])"

text \<open>
  The ping branch once the state is known to be \<open>Connected\<close>: \<open>find\<close> on the object, and
  \<open>as_bool\<close> on the member if there is one.
\<close>

definition on_ping_connected :: "externals \<Rightarrow> json \<Rightarrow> SoraSignaling \<Rightarrow> result" where
  "on_ping_connected X json_message st =
     (case as_object json_message of
        None \<Rightarrow> fails JsonException st []
      | Some ms \<Rightarrow>
        (case find_member ms ''stats'' of
           None \<Rightarrow> DoSendPong X st
         | Some v \<Rightarrow>
           (case as_bool v of
              None \<Rightarrow> fails JsonException st []
            | Some True \<Rightarrow> connection_GetStats st
            | Some False \<Rightarrow> DoSendPong X st)))"

text \<open>The chain of comparisons on \<open>type\<close>, with the \<open>DoRead\<close> that ends each path.\<close>

definition dispatch :: "externals \<Rightarrow> string \<Rightarrow> json \<Rightarrow> string \<Rightarrow> SoraSignaling \<Rightarrow> result" where
  "dispatch X text json_message type st =
     (if type = ''offer'' then and_then (on_offer json_message st) DoRead
      else if type = ''update'' then and_then (on_update json_message st) DoRead
      else if type = ''notify'' then and_then (on_notify_message text st) DoRead
      else if type = ''ping''
      then (if rtc_state st \<noteq> kIceConnectionConnected then DoRead st
            else and_then (on_ping_connected X json_message st) DoRead)
      else DoRead st)"

text \<open>Parsing the text and reading \<open>type\<close>, then the dispatch.\<close>

definition decode_and_dispatch :: "externals \<Rightarrow> string \<Rightarrow> SoraSignaling \<Rightarrow> result" where
  "decode_and_dispatch X text st =
     (case json_parse X text of
        None \<Rightarrow> fails JsonException st []
      | Some json_message \<Rightarrow>
        (case Option.bind (at json_message ''type'') as_string of
           None \<Rightarrow> fails JsonException st []
         | Some t \<Rightarrow> dispatch X text json_message (c_str t) st))"

definition OnRead :: "externals \<Rightarrow> error_code \<Rightarrow> nat \<Rightarrow> string \<Rightarrow> SoraSignaling \<Rightarrow> result" where
  "OnRead X ec bytes_transferred text st =
     (if ec = operation_aborted then returns st []
      else if ec \<noteq> ec_success then returns st [Log LS_ERROR [Str ''Failed to read: ec='', Ec ec]]
      else and_then (returns st [Log LS_INFO [Str ''OnRead'', Str '': text='', Str text]])
             (decode_and_dispatch X text))"

subsection \<open>Continuations run by the Connection\<close>

text \<open>
  The closure given to \<open>SetOffer\<close> reads \<open>connection_\<close> again when it runs; the closure
  given to \<open>CreateAnswer\<close> sends the description; the closure given to \<open>GetStats\<close> sends
  the pong with the report.
\<close>

definition SetOffer_done :: "reply \<Rightarrow> SoraSignaling \<Rightarrow> result" where
  "SetOffer_done r st = connection_CreateAnswer r st"

definition CreateAnswer_done ::
  "externals \<Rightarrow> reply \<Rightarrow> SessionDescription \<Rightarrow> SoraSignaling \<Rightarrow> result" where
  "CreateAnswer_done X r desc st =
     ws_WriteText (json_serialize X (description_message r (ToString desc))) st"

definition GetStats_done :: "RTCStatsReport \<Rightarrow> SoraSignaling \<Rightarrow> result" where
  "GetStats_done report st = DoSendPong_report report st"

subsection \<open>Callbacks from the Connection\<close>

definition OnIceConnectionStateChange :: "IceConnectionState \<Rightarrow> SoraSignaling \<Rightarrow> result" where
  "OnIceConnectionStateChange new_state st =
     returns st [Log LS_INFO [Str ''OnIceConnectionStateChange'', Str '' state:'', State new_state],
                 Post new_state]"

definition OnIceCandidate ::
  "externals \<Rightarrow> string \<Rightarrow> int \<Rightarrow> string \<Rightarrow> SoraSignaling \<Rightarrow> result" where
  "OnIceCandidate X sdp_mid sdp_mlineindex sdp st =
     ws_WriteText (json_serialize X (candidate_message sdp)) st"

text \<open>The task that \<open>OnIceConnectionStateChange\<close> posts.\<close>

definition DoIceConnectionStateChange :: "IceConnectionState \<Rightarrow> SoraSignaling \<Rightarrow> result" where
  "DoIceConnectionStateChange new_state st =
     returns (st\<lparr>rtc_state := new_state\<rparr>)
       [Log LS_INFO [Str ''DoIceConnectionStateChange'',
                     Str '': oldState='', Str (iceConnectionStateToString (rtc_state st)),
                     Str '', newState='', Str (iceConnectionStateToString new_state)]]"

section \<open>Runs of the client\<close>

text \<open>
  What can happen to a client: the application calls \<open>Connect\<close>, \<open>Close\<close> or \<open>Release\<close>, the
  transport completes an operation, the Connection calls back or runs a continuation, or
  a posted task is run.
\<close>

datatype event =
    CallConnect
  | CallClose
  | CallRelease
  | ConnectCompleted error_code
  | ReadCompleted error_code string
  | CloseCompleted error_code
  | SetOfferCompleted reply
  | AnswerCreated reply SessionDescription
  | StatsDelivered RTCStatsReport
  | IceConnectionChanged IceConnectionState
  | IceCandidateFound string int string
  | PostedTaskRun IceConnectionState

fun handle :: "externals \<Rightarrow> event \<Rightarrow> SoraSignaling \<Rightarrow> result" where
  "handle X CallConnect st = (case Connect X st of (ok, st', es) \<Rightarrow> returns st' es)"
| "handle X CallClose st = Close st"
| "handle X CallRelease st = returns (Release st) []"
| "handle X (ConnectCompleted ec) st = OnConnect X ec st"
| "handle X (ReadCompleted ec text) st = OnRead X ec (length text) text st"
| "handle X (CloseCompleted ec) st = OnClose ec st"
| "handle X (SetOfferCompleted r) st = SetOffer_done r st"
| "handle X (AnswerCreated r desc) st = CreateAnswer_done X r desc st"
| "handle X (StatsDelivered report) st = GetStats_done report st"
| "handle X (IceConnectionChanged new_state) st = OnIceConnectionStateChange new_state st"
| "handle X (IceCandidateFound mid idx sdp) st = OnIceCandidate X mid idx sdp st"
| "handle X (PostedTaskRun new_state) st = DoIceConnectionStateChange new_state st"

text \<open>Events one after the other; the run ends at the first handler that does not return.\<close>

fun run :: "externals \<Rightarrow> event list \<Rightarrow> SoraSignaling \<Rightarrow> result" where
  "run X [] st = returns st []"
| "run X (e # es) st = and_then (handle X e st) (run X es)"

text \<open>How many reads, writes and Connection constructions a list of calls holds.\<close>

definition reads_issued :: "effect list \<Rightarrow> nat" where
  "reads_issued es = count_list es WsRead"

definition writes_issued :: "effect list \<Rightarrow> string list" where
  "writes_issued es = concat (map (\<lambda>e. case e of WsWriteText text \<Rightarrow> [text] | _ \<Rightarrow> []) es)"

fun is_create :: "effect \<Rightarrow> bool" where
  "is_create (CreateConnection ice_servers) = True"
| "is_create _ = False"

definition connections_created :: "effect list \<Rightarrow> nat" where
  "connections_created es = length (filter is_create es)"

text \<open>
  The read loop seen from the transport: it completes the reads of the list one after the
  other, each while a read is outstanding, and every \<open>Read\<close> call of the handler adds an
  outstanding read. The result is the number of reads outstanding at the end; the loop
  ends with the list, or when no read is outstanding, or when the handler does not return.
\<close>

fun outstanding_reads ::
  "externals \<Rightarrow> nat \<Rightarrow> (error_code \<times> string) list \<Rightarrow> SoraSignaling \<Rightarrow> nat" where
  "outstanding_reads X pending [] st = pending"
| "outstanding_reads X pending ((ec, text) # rest) st =
     (if pending = 0 then 0
      else (case OnRead X ec (length text) text st of
              (None, st', es) \<Rightarrow> outstanding_reads X (pending - 1 + reads_issued es) rest st'
            | (Some f, st', es) \<Rightarrow> pending - 1 + reads_issued es))"

text \<open>A result holds one \<open>Read\<close> call if the function returned and none if it did not.\<close>

definition one_read_iff_returned :: "result \<Rightarrow> bool" where
  "one_read_iff_returned r = (reads_issued (effects r) = (if outcome r = None then 1 else 0))"

section \<open>Concrete collaborators for the examples\<close>

text \<open>
  The frames of the scenarios in the spec and what \<open>boost::json::parse\<close> makes of them.
  The two texts that are not JSON have rows of their own; texts outside the table are not
  used by any example.
\<close>

definition ping_frame :: string where
  \<open>ping_frame = ''{"type":"ping"}''\<close>

definition ping_stats_frame :: string where
  \<open>ping_stats_frame = ''{"type":"ping","stats":true}''\<close>

definition offer_frame :: string where
  \<open>offer_frame = ''{"type":"offer","config":{"iceServers":[]},"sdp":"v=0"}''\<close>

definition offer_without_sdp_frame :: string where
  \<open>offer_without_sdp_frame = ''{"type":"offer","config":{"iceServers":[]}}''\<close>

definition update_frame :: string where
  \<open>update_frame = ''{"type":"update","sdp":"v=0"}''\<close>

definition truncated_frame :: string where
  \<open>truncated_frame = ''{"type":''\<close>

definition example_parse :: "string \<Rightarrow> json option" where
  "example_parse text =
     (if text = ping_frame then Some (JObject [(''type'', JString ''ping'')])
      else if text = ping_stats_frame
      then Some (JObject [(''type'', JString ''ping''), (''stats'', JBool True)])
      else if text = offer_frame
      then Some (JObject [(''type'', JString ''offer''),
                          (''config'', JObject [(''iceServers'', JArray [])]),
                          (''sdp'', JString ''v=0'')])
      else if text = offer_without_sdp_frame
      then Some (JObject [(''type'', JString ''offer''),
                          (''config'', JObject [(''iceServers'', JArray [])])])
      else if text = update_frame
      then Some (JObject [(''type'', JString ''update''), (''sdp'', JString ''v=0'')])
      else if text = ''{}'' then Some (JObject [])
      else if text = truncated_frame then None
      else if text = ''not json'' then None
      else None)"

text \<open>What \<open>boost::json::serialize\<close> returns for the messages of the examples.\<close>

definition example_serialize :: "json \<Rightarrow> string" where
  \<open>example_serialize j =
     (if j = pong_message then ''{"type":"pong"}''
      else if j = description_message answer ''v=0'' then ''{"type":"answer","sdp":"v=0"}''
      else if j = description_message update ''v=0'' then ''{"type":"update","sdp":"v=0"}''
      else if j = candidate_message ''candidate:1''
      then ''{"type":"candidate","candidate":"candidate:1"}''
      else if j = JObject [(''type'', JString ''connect''), (''role'', JString ''sendrecv''),
                           (''multistream'', JBool True), (''channel_id'', JString ''sora''),
                           (''sora_client'', JString ''Sora Unity SDK 2021.1 (0a1b2c3)''),
                           (''libwebrtc'', JString ''Shiguredo-build M90 (90.4430.3 a1b2c3d)''),
                           (''environment'', JString ''Unity 2019.4 for Linux''),
                           (''video'', JObject [(''codec_type'', JString ''VP9'')]),
                           (''audio'', JObject [(''codec_type'', JString ''OPUS''),
                                                (''bit_rate'', JInt64 64)])]
      then ''{"type":"connect","role":"sendrecv","multistream":true,"channel_id":"sora",''
           @ ''"sora_client":"Sora Unity SDK 2021.1 (0a1b2c3)",''
           @ ''"libwebrtc":"Shiguredo-build M90 (90.4430.3 a1b2c3d)",''
           @ ''"environment":"Unity 2019.4 for Linux","video":{"codec_type":"VP9"},''
           @ ''"audio":{"codec_type":"OPUS","bit_rate":64}}''
      else [])\<close>

definition example_url_parse :: "string \<Rightarrow> URLParts option" where
  "example_url_parse url =
     (if url = ''wss://sora.example.com/signaling''
      then Some \<lparr>scheme = ''wss'', host = ''sora.example.com'', port = []\<rparr>
      else None)"

definition example_externals :: externals where
  "example_externals =
     \<lparr>json_parse = example_parse, json_serialize = example_serialize,
      url_parse = example_url_parse, SORA_CLIENT = ''Sora Unity SDK 2021.1 (0a1b2c3)'',
      LIBWEBRTC = ''Shiguredo-build M90 (90.4430.3 a1b2c3d)'',
      SORA_UNITY_SDK_PLATFORM = ''Linux''\<rparr>"

definition example_config :: SoraSignalingConfig where
  "example_config =
     \<lparr>signaling_url = ''wss://sora.example.com/signaling'', channel_id = ''sora'',
      role = Sendrecv, multistream = True, metadata = JNull,
      video_codec = ''VP9'', video_bitrate = 0,
      audio_codec = ''OPUS'', audio_bitrate = 64,
      unity_version = ''2019.4'', insecure = False\<rparr>"

text \<open>A client after \<open>Create\<close>, and one whose control channel is open.\<close>

definition fresh_client :: SoraSignaling where
  "fresh_client = Create 0 example_config True"

definition open_client :: SoraSignaling where
  "open_client = fresh_client\<lparr>connected := True, ws := Some (SslWebsocket False)\<rparr>"

text \<open>A client that has handled an offer and whose Connection reported \<open>Connected\<close>.\<close>

definition negotiated_client :: SoraSignaling where
  "negotiated_client =
     open_client\<lparr>rtc_state := kIceConnectionConnected,
                 connection := Some \<lparr>serial = 0, servers = []\<rparr>, manager := 1\<rparr>"

lemmas frame_defs =
  ping_frame_def ping_stats_frame_def offer_frame_def offer_without_sdp_frame_def
  update_frame_def truncated_frame_def

lemmas example_defs =
  example_externals_def example_parse_def example_serialize_def example_url_parse_def
  example_config_def fresh_client_def open_client_def negotiated_client_def Create_def
  frame_defs

lemmas result_defs = returns_def fails_def and_then_def outcome_def fields_def effects_def

lemmas ws_defs = ws_Read_def ws_WriteText_def ws_Close_def DoRead_def

lemmas OnRead_defs = OnRead_def decode_and_dispatch_def dispatch_def

lemmas branch_defs = on_offer_def on_update_def on_notify_message_def on_ping_connected_def
  CreatePeerFromConfig_def connection_SetOffer_def connection_GetStats_def DoSendPong_def

lemmas count_defs = reads_issued_def writes_issued_def connections_created_def

lemmas eval_defs = example_defs OnRead_defs branch_defs result_defs ws_defs count_defs
  ice_servers_of_config_def at_def find_member_def c_str_def

section \<open>Properties\<close>

subsection \<open>Helper facts about the read handler\<close>

lemma OnRead_decoded:
  assumes "json_parse X text = Some j" and "Option.bind (at j ''type'') as_string = Some t"
  shows "OnRead X ec_success n text st =
     and_then (returns st [Log LS_INFO [Str ''OnRead'', Str '': text='', Str text]])
       (dispatch X text j (c_str t))"
proof -
  have "decode_and_dispatch X text = dispatch X text j (c_str t)"
    using assms by (simp add: decode_and_dispatch_def fun_eq_iff)
  then show ?thesis
    by (simp add: OnRead_def)
qed

lemma then_DoRead:
  "fields (and_then r DoRead) = fields r"
  "outcome (and_then r DoRead) =
     (if outcome r \<noteq> None then outcome r
      else if ws (fields r) = None then Some NullDereference else None)"
  "effects (and_then r DoRead) =
     effects r @ (if outcome r = None \<and> ws (fields r) \<noteq> None then [WsRead] else [])"
  by (cases r; auto simp add: result_defs ws_defs split: option.splits)+

lemma DoRead_result:
  "fields (DoRead st) = st"
  "outcome (DoRead st) = (if ws st = None then Some NullDereference else None)"
  "effects (DoRead st) = (if ws st = None then [] else [WsRead])"
  by (auto simp add: result_defs ws_defs split: option.splits)

lemma after_one:
  "fields (and_then (returns st [e]) k) = fields (k st)"
  "outcome (and_then (returns st [e]) k) = outcome (k st)"
  "effects (and_then (returns st [e]) k) = e # effects (k st)"
  by (cases "k st"; simp add: result_defs)+

lemma OnRead_success:
  "fields (OnRead X ec_success n text st) = fields (decode_and_dispatch X text st)"
  "outcome (OnRead X ec_success n text st) = outcome (decode_and_dispatch X text st)"
  "effects (OnRead X ec_success n text st) =
     Log LS_INFO [Str ''OnRead'', Str '': text='', Str text] # effects (decode_and_dispatch X text st)"
  by (simp_all add: OnRead_def after_one)

lemma OnRead_not_success:
  "ec \<noteq> ec_success \<Longrightarrow> fields (OnRead X ec n text st) = st"
  "ec \<noteq> ec_success \<Longrightarrow> outcome (OnRead X ec n text st) = None"
  "ec \<noteq> ec_success \<Longrightarrow> reads_issued (effects (OnRead X ec n text st)) = 0"
  by (simp_all add: OnRead_def result_defs reads_issued_def)

lemma decoded:
  assumes "json_parse X text = Some j" and "Option.bind (at j ''type'') as_string = Some t"
  shows "decode_and_dispatch X text st = dispatch X text j (c_str t) st"
  using assms by (simp add: decode_and_dispatch_def)

lemma counts_append:
  "writes_issued (es @ es') = writes_issued es @ writes_issued es'"
  "connections_created (es @ es') = connections_created es + connections_created es'"
  "reads_issued (es @ es') = reads_issued es + reads_issued es'"
  by (simp_all add: count_defs)

lemma counts_simple:
  "writes_issued [] = []" "writes_issued [WsRead] = []"
  "writes_issued (Log sev items # es) = writes_issued es"
  "connections_created [] = 0" "connections_created [WsRead] = 0"
  "connections_created (Log sev items # es) = connections_created es"
  "reads_issued [] = 0" "reads_issued [WsRead] = 1"
  "reads_issued (Log sev items # es) = reads_issued es"
  by (simp_all add: count_defs)

text \<open>The branches of the dispatch, one by one.\<close>

lemma branch_no_read:
  "reads_issued (effects (on_offer j st)) = 0"
  "reads_issued (effects (on_update j st)) = 0"
  "reads_issued (effects (on_notify_message text st)) = 0"
  "reads_issued (effects (on_ping_connected X j st)) = 0"
  by (auto simp add: branch_defs result_defs ws_defs reads_issued_def
      split: option.splits bool.splits)


lemma on_offer_creates:
  assumes "at j ''config'' = Some jconfig" and "ice_servers_of_config jconfig = Some ice_servers"
  shows "connection (fields (on_offer j st)) = Some \<lparr>serial = manager st, servers = ice_servers\<rparr>"
    and "connections_created (effects (on_offer j st)) = 1"
  using assms
  by (auto simp add: branch_defs result_defs connections_created_def split: option.splits)

lemma other_branch_fields:
  "fields (on_update j st) = st"
  "fields (on_notify_message text st) = st"
  "fields (on_ping_connected X j st) = st"
  by (auto simp add: branch_defs result_defs ws_defs split: option.splits bool.splits)

lemma other_branch_creates:
  "connections_created (effects (on_update j st)) = 0"
  "connections_created (effects (on_notify_message text st)) = 0"
  "connections_created (effects (on_ping_connected X j st)) = 0"
  by (auto simp add: branch_defs result_defs ws_defs connections_created_def
      split: option.splits bool.splits)


lemma on_update_result:
  assumes "Option.bind (at j ''sdp'') as_string = Some sdp"
  shows "on_update j st =
     (case connection st of
        None \<Rightarrow> (Some NullDereference, st, [])
      | Some c \<Rightarrow> (None, st, [SetOffer c (c_str sdp) update]))"
  using assms by (simp add: on_update_def connection_SetOffer_def result_defs split: option.splits)



lemma dispatch_not_offer:
  "type \<noteq> ''offer'' \<Longrightarrow> fields (dispatch X text j type st) = st"
  "type \<noteq> ''offer'' \<Longrightarrow> connections_created (effects (dispatch X text j type st)) = 0"
  by (simp_all add: dispatch_def then_DoRead DoRead_result counts_append counts_simple
      other_branch_fields other_branch_creates)

lemma dispatch_offer:
  assumes "at j ''config'' = Some jconfig" and "ice_servers_of_config jconfig = Some ice_servers"
  shows "connection (fields (dispatch X text j ''offer'' st)) =
           Some \<lparr>serial = manager st, servers = ice_servers\<rparr>"
    and "connections_created (effects (dispatch X text j ''offer'' st)) = 1"
  by (simp_all add: dispatch_def then_DoRead counts_append counts_simple on_offer_creates [OF assms])

lemma then_read_counts:
  "reads_issued (effects r) = 0 \<Longrightarrow> one_read_iff_returned (and_then r DoRead)"
  by (auto simp add: one_read_iff_returned_def then_DoRead counts_append counts_simple)

lemma DoRead_counts: "one_read_iff_returned (DoRead st)"
  by (simp add: one_read_iff_returned_def DoRead_result counts_simple)

lemma fails_counts: "one_read_iff_returned (fails f st [])"
  by (simp add: one_read_iff_returned_def result_defs reads_issued_def)

lemma dispatch_reads: "one_read_iff_returned (dispatch X text j type st)"
  by (simp add: dispatch_def then_read_counts branch_no_read DoRead_counts)

lemma decode_and_dispatch_reads: "one_read_iff_returned (decode_and_dispatch X text st)"
  by (simp add: decode_and_dispatch_def dispatch_reads fails_counts split: option.splits)

lemma OnRead_reads:
  "reads_issued (effects (OnRead X ec n text st)) =
     (if ec = ec_success \<and> outcome (OnRead X ec n text st) = None then 1 else 0)"
proof (cases "ec = ec_success")
  case True
  then show ?thesis
    using decode_and_dispatch_reads [of X "text" st]
    by (simp add: OnRead_success counts_simple one_read_iff_returned_def)
next
  case False
  then show ?thesis
    by (simp add: OnRead_not_success)
qed

lemma outstanding_reads_le:
  "pending \<le> 1 \<Longrightarrow> outstanding_reads X pending cs st \<le> 1"
proof (induction cs arbitrary: pending st)
  case Nil
  then show ?case by simp
next
  case (Cons c cs)
  obtain ec frame where c: "c = (ec, frame)" by (cases c)
  obtain out st' es where r: "OnRead X ec (length frame) frame st = (out, st', es)"
    by (cases "OnRead X ec (length frame) frame st")
  have es: "reads_issued es \<le> 1"
    using OnRead_reads [of X ec "length frame" frame st]
    by (simp add: r effects_def split: if_splits)
  show ?case
  proof (cases "pending = 0")
    case True
    then show ?thesis by (simp add: c)
  next
    case False
    with Cons.prems have "pending - 1 + reads_issued es \<le> 1" using es by simp
    then show ?thesis
      using False Cons.IH [of "pending - 1 + reads_issued es" st']
      by (cases out) (simp_all add: c r)
  qed
qed

lemma connect_message_value:
  "connect_message X cfg =
     Some ([(''type'', JString ''connect''),
            (''role'', JString (role_name (role cfg))),
            (''multistream'', JBool (multistream cfg)),
            (''channel_id'', JString (channel_id cfg)),
            (''sora_client'', JString (SORA_CLIENT X)),
            (''libwebrtc'', JString (LIBWEBRTC X)),
            (''environment'',
             JString (''Unity '' @ unity_version cfg @ '' for '' @ SORA_UNITY_SDK_PLATFORM X))]
           @ (if is_null (metadata cfg) then [] else [(''metadata'', metadata cfg)])
           @ [(''video'', JObject ((''codec_type'', JString (video_codec cfg)) #
                 (if video_bitrate cfg = 0 then []
                  else [(''bit_rate'', JInt64 (video_bitrate cfg))]))),
              (''audio'', JObject ((''codec_type'', JString (audio_codec cfg)) #
                 (if audio_bitrate cfg = 0 then []
                  else [(''bit_rate'', JInt64 (audio_bitrate cfg))])))])"
  by (simp add: connect_message_def assign_nested_def find_member_def)

text \<open>
  A ping asking for statistics dereferences \<open>connection_\<close> as an update does: if the
  state is \<open>Connected\<close> and the client has been released, the handler ends there.
\<close>

lemma ping_stats_without_connection:
  assumes "json_parse X text = Some j"
    and "Option.bind (at j ''type'') as_string = Some t"
    and "c_str t = ''ping''"
    and "at j ''stats'' = Some (JBool True)"
    and "rtc_state st = kIceConnectionConnected"
    and "connection st = None"
  shows "OnRead X ec_success n text st =
     (Some NullDereference, st, [Log LS_INFO [Str ''OnRead'', Str '': text='', Str text]])"
proof -
  obtain ms where j: "j = JObject ms"
    using assms(2) by (cases j) (simp_all add: at_def)
  show ?thesis
    using assms(3-6)
    by (simp add: OnRead_decoded [OF assms(1,2)] dispatch_def j on_ping_connected_def
        connection_GetStats_def at_def result_defs)
qed

subsection \<open>Keepalive\<close>

text \<open>
  C1, as the code has it. An inbound ping is a frame that decodes to a value whose \<open>type\<close>
  is \<open>ping\<close>, read by a client that has a transport. While the connectivity state is not
  \<open>Connected\<close> the handler only issues the next read and writes nothing. When it is
  \<open>Connected\<close>, the payload has \<open>stats\<close> true and the client holds a Connection, the
  handler asks that Connection for its statistics, writes nothing itself and issues the
  next read; the continuation run with the report writes exactly one text, the report's
  JSON between \<open>{"type":"pong","stats":\<close> and \<open>}\<close>. When it is \<open>Connected\<close> and \<open>stats\<close>
  is absent or false, the handler writes exactly one text, the serialization of the object
  whose only member is \<open>type\<close> with the value \<open>pong\<close>, and issues the next read.
\<close>

theorem ping_handling:
  assumes parsed: \<open>json_parse X text = Some j\<close>
    and type: \<open>Option.bind (at j ''type'') as_string = Some t\<close>
    and ping: \<open>c_str t = ''ping''\<close>
    and transport: \<open>ws st = Some w\<close>
  shows \<open>(rtc_state st \<noteq> kIceConnectionConnected \<longrightarrow>
            OnRead X ec_success n text st =
              (None, st, [Log LS_INFO [Str ''OnRead'', Str '': text='', Str text], WsRead])) \<and>
         (rtc_state st = kIceConnectionConnected \<and> at j ''stats'' = Some (JBool True)
            \<and> connection st = Some c \<longrightarrow>
            OnRead X ec_success n text st =
              (None, st, [Log LS_INFO [Str ''OnRead'', Str '': text='', Str text],
                          GetStats c, WsRead]) \<and>
            GetStats_done report st =
              (None, st, [WsWriteText (''{"type":"pong","stats":'' @ ToJson report @ ''}'')])) \<and>
         (rtc_state st = kIceConnectionConnected \<and>
            (at j ''stats'' = None \<or> at j ''stats'' = Some (JBool False)) \<longrightarrow>
            OnRead X ec_success n text st =
              (None, st, [Log LS_INFO [Str ''OnRead'', Str '': text='', Str text],
                          WsWriteText (json_serialize X (JObject [(''type'', JString ''pong'')])),
                          WsRead]))\<close>
proof -
  obtain ms where j: "j = JObject ms"
    using type by (cases j) (simp_all add: at_def)
  show ?thesis
    using transport ping
    by (auto simp add: OnRead_decoded [OF parsed type] dispatch_def j result_defs ws_defs
        on_ping_connected_def connection_GetStats_def DoSendPong_def GetStats_done_def
        DoSendPong_report_def pong_message_def pong_stats_text_def at_def find_member_def)
qed

theorem ping_handling_witness:
  \<open>OnRead example_externals ec_success 28 ping_stats_frame open_client =
     (None, open_client,
      [Log LS_INFO [Str ''OnRead'', Str '': text='', Str ping_stats_frame], WsRead]) \<and>
   OnRead example_externals ec_success 28 ping_stats_frame negotiated_client =
     (None, negotiated_client,
      [Log LS_INFO [Str ''OnRead'', Str '': text='', Str ping_stats_frame],
       GetStats \<lparr>serial = 0, servers = []\<rparr>, WsRead]) \<and>
   GetStats_done (RTCStatsReport ''[{"id":"T01"}]'') negotiated_client =
     (None, negotiated_client, [WsWriteText ''{"type":"pong","stats":[{"id":"T01"}]}'']) \<and>
   OnRead example_externals ec_success 15 ping_frame negotiated_client =
     (None, negotiated_client,
      [Log LS_INFO [Str ''OnRead'', Str '': text='', Str ping_frame],
       WsWriteText ''{"type":"pong"}'', WsRead])\<close>
proof -
  have stats: "json_parse example_externals ping_stats_frame =
      Some (JObject [(''type'', JString ''ping''), (''stats'', JBool True)])"
    and bare: "json_parse example_externals ping_frame = Some (JObject [(''type'', JString ''ping'')])"
    by (simp_all add: example_defs)
  have stats_type:
    "Option.bind (at (JObject [(''type'', JString ''ping''), (''stats'', JBool True)]) ''type'')
       as_string = Some ''ping''"
    and bare_type:
    "Option.bind (at (JObject [(''type'', JString ''ping'')]) ''type'') as_string = Some ''ping''"
    by (simp_all add: at_def find_member_def)
  have ping: "c_str ''ping'' = ''ping''"
    by (simp add: c_str_def)
  have open_ws: "ws open_client = Some (SslWebsocket False)"
    and negotiated_ws: "ws negotiated_client = Some (SslWebsocket False)"
    by (simp_all add: example_defs)
  have pong: \<open>json_serialize example_externals (JObject [(''type'', JString ''pong'')]) =
      ''{"type":"pong"}''\<close>
    by (simp add: example_externals_def example_serialize_def pong_message_def)
  have held: "rtc_state open_client \<noteq> kIceConnectionConnected"
    "rtc_state negotiated_client = kIceConnectionConnected"
    "connection negotiated_client = Some \<lparr>serial = 0, servers = []\<rparr>"
    by (simp_all add: example_defs)
  show ?thesis
    using ping_handling [OF stats stats_type ping open_ws, where n = 28]
      ping_handling [OF stats stats_type ping negotiated_ws,
        where n = 28 and c = "\<lparr>serial = 0, servers = []\<rparr>"
          and report = \<open>RTCStatsReport ''[{"id":"T01"}]''\<close>]
      ping_handling [OF bare bare_type ping negotiated_ws, where n = 15]
      pong held
    by (simp add: at_def find_member_def)
qed

text \<open>
  C1 as stated fails for a client that has been released. After the control channel has
  opened, an offer has been handled and the Connection has reported \<open>Connected\<close>,
  \<open>Release\<close> leaves the state \<open>Connected\<close> with no Connection held; a ping with \<open>stats\<close>
  true then ends in the dereference of the empty \<open>connection_\<close>, and no pong is written.
\<close>

theorem ping_after_release_counterexample:
  \<open>fields (run example_externals
      [CallConnect, ConnectCompleted ec_success, ReadCompleted ec_success offer_frame,
       IceConnectionChanged kIceConnectionConnected, PostedTaskRun kIceConnectionConnected,
       CallRelease] fresh_client) = Release negotiated_client \<and>
   rtc_state (Release negotiated_client) = kIceConnectionConnected \<and>
   json_parse example_externals ping_stats_frame =
     Some (JObject [(''type'', JString ''ping''), (''stats'', JBool True)]) \<and>
   OnRead example_externals ec_success 28 ping_stats_frame (Release negotiated_client) =
     (Some NullDereference, Release negotiated_client,
      [Log LS_INFO [Str ''OnRead'', Str '': text='', Str ping_stats_frame]])\<close>
  by (simp add: eval_defs Connect_def OnConnect_def DoSendConnect_def connect_message_value
      OnIceConnectionStateChange_def DoIceConnectionStateChange_def Release_def Let_def)

subsection \<open>The accessor\<close>

text \<open>
  C4. \<open>getRTCConnection\<close> returns the client's Connection reference when the connectivity
  state is \<open>Connected\<close> and none in every other state, \<open>Completed\<close> included; so it
  returns a Connection exactly when the state is \<open>Connected\<close> and the client holds one.
\<close>

theorem getRTCConnection_only_when_connected:
  "(rtc_state st = kIceConnectionConnected \<longrightarrow> getRTCConnection st = connection st) \<and>
   (rtc_state st \<noteq> kIceConnectionConnected \<longrightarrow> getRTCConnection st = None) \<and>
   (getRTCConnection st = Some c \<longleftrightarrow>
      rtc_state st = kIceConnectionConnected \<and> connection st = Some c)"
  by (simp add: getRTCConnection_def)

theorem getRTCConnection_only_when_connected_witness:
  "rtc_state negotiated_client = kIceConnectionConnected \<and>
   getRTCConnection negotiated_client = Some \<lparr>serial = 0, servers = []\<rparr> \<and>
   rtc_state (negotiated_client\<lparr>rtc_state := kIceConnectionCompleted\<rparr>)
     \<noteq> kIceConnectionConnected \<and>
   getRTCConnection (negotiated_client\<lparr>rtc_state := kIceConnectionCompleted\<rparr>) = None"
  using getRTCConnection_only_when_connected [of negotiated_client]
    getRTCConnection_only_when_connected
      [of "negotiated_client\<lparr>rtc_state := kIceConnectionCompleted\<rparr>"]
  by (simp add: example_defs)

subsection \<open>Connect and the connect message\<close>

text \<open>
  C6. \<open>Connect\<close> on a client whose control channel is connected returns false. It leaves
  every field as it was and makes no call on a collaborator but the log line at its entry:
  no transport is constructed or opened and nothing is written.
\<close>

theorem Connect_when_connected:
  "connected st \<Longrightarrow> Connect X st = (False, st, [Log LS_INFO [Str ''Connect'']])"
  by (simp add: Connect_def)

theorem Connect_when_connected_witness:
  "connected open_client \<and>
   Connect example_externals open_client = (False, open_client, [Log LS_INFO [Str ''Connect'']])"
proof -
  have c: "connected open_client"
    by (simp add: example_defs)
  show ?thesis
    using c Connect_when_connected [OF c, of example_externals] by simp
qed

text \<open>
  C7. For every configuration \<open>DoSendConnect\<close> builds an object and hands its
  serialization to the transport. The object has \<open>type\<close>, \<open>role\<close>, \<open>multistream\<close>,
  \<open>channel_id\<close>, \<open>sora_client\<close>, \<open>libwebrtc\<close>, \<open>environment\<close>, and \<open>video\<close> and \<open>audio\<close>
  objects with \<open>codec_type\<close>. It has \<open>metadata\<close> exactly when the configured metadata is
  not null, and \<open>video\<close> and \<open>audio\<close> have \<open>bit_rate\<close> exactly when the configured bitrate
  is not zero.
\<close>

theorem connect_message_fields:
  "\<exists>m video audio.
     connect_message X (config st) = Some m \<and>
     DoSendConnect X st = ws_WriteText (json_serialize X (JObject m)) st \<and>
     find_member m ''type'' = Some (JString ''connect'') \<and>
     find_member m ''role'' = Some (JString (role_name (role (config st)))) \<and>
     find_member m ''multistream'' = Some (JBool (multistream (config st))) \<and>
     find_member m ''channel_id'' = Some (JString (channel_id (config st))) \<and>
     find_member m ''sora_client'' = Some (JString (SORA_CLIENT X)) \<and>
     find_member m ''libwebrtc'' = Some (JString (LIBWEBRTC X)) \<and>
     find_member m ''environment'' =
       Some (JString (''Unity '' @ unity_version (config st) @ '' for ''
                      @ SORA_UNITY_SDK_PLATFORM X)) \<and>
     find_member m ''metadata'' =
       (if is_null (metadata (config st)) then None else Some (metadata (config st))) \<and>
     find_member m ''video'' = Some (JObject video) \<and>
     find_member video ''codec_type'' = Some (JString (video_codec (config st))) \<and>
     find_member video ''bit_rate'' =
       (if video_bitrate (config st) = 0 then None
        else Some (JInt64 (video_bitrate (config st)))) \<and>
     find_member m ''audio'' = Some (JObject audio) \<and>
     find_member audio ''codec_type'' = Some (JString (audio_codec (config st))) \<and>
     find_member audio ''bit_rate'' =
       (if audio_bitrate (config st) = 0 then None
        else Some (JInt64 (audio_bitrate (config st))))"
  by (simp add: connect_message_value DoSendConnect_def find_member_def)

subsection \<open>Release\<close>

text \<open>
  C8. \<open>Release\<close> sets the Connection reference to none and changes no other field of the
  client, and releasing twice gives the same client as releasing once.
\<close>

theorem Release_detaches_connection:
  "connection (Release st) = None \<and>
   rtc_state (Release st) = rtc_state st \<and>
   connected (Release st) = connected st \<and>
   ws (Release st) = ws st \<and>
   config (Release st) = config st \<and>
   on_notify (Release st) = on_notify st \<and>
   parts (Release st) = parts st \<and>
   manager (Release st) = manager st \<and>
   Release st = st\<lparr>connection := None\<rparr> \<and>
   Release (Release st) = Release st"
  by (simp add: Release_def)

subsection \<open>The Connection held by the client\<close>

text \<open>
  C2, as the code has it. The client holds at most one Connection reference, the field
  \<open>connection\<close>. Every offer whose ICE server configuration can be read constructs a new
  Connection and stores it in the field, in place of whatever was held: \<open>OnRead\<close> calls
  \<open>CreatePeerFromConfig\<close> without looking at \<open>connection_\<close>. A message of any other type,
  an update in particular, constructs no Connection and changes no field, and an update
  applies its description to the Connection that is held.
\<close>

theorem offer_constructs_connection:
  assumes parsed: "json_parse X text = Some j"
    and type: "Option.bind (at j ''type'') as_string = Some t"
  shows "(c_str t = ''offer'' \<and> at j ''config'' = Some jconfig \<and>
          ice_servers_of_config jconfig = Some ice_servers \<longrightarrow>
            connection (fields (OnRead X ec_success n text st)) =
              Some \<lparr>serial = manager st, servers = ice_servers\<rparr> \<and>
            connections_created (effects (OnRead X ec_success n text st)) = 1) \<and>
         (c_str t \<noteq> ''offer'' \<longrightarrow>
            fields (OnRead X ec_success n text st) = st \<and>
            connections_created (effects (OnRead X ec_success n text st)) = 0) \<and>
         (c_str t = ''update'' \<and> Option.bind (at j ''sdp'') as_string = Some sdp \<and>
          connection st = Some c \<longrightarrow>
            SetOffer c (c_str sdp) update \<in> set (effects (OnRead X ec_success n text st)))"
proof (intro conjI impI)
  assume a: "c_str t = ''offer'' \<and> at j ''config'' = Some jconfig \<and>
    ice_servers_of_config jconfig = Some ice_servers"
  then have cfg: "at j ''config'' = Some jconfig"
    and srv: "ice_servers_of_config jconfig = Some ice_servers" by simp_all
  show "connection (fields (OnRead X ec_success n text st)) =
      Some \<lparr>serial = manager st, servers = ice_servers\<rparr>"
    using a by (simp add: OnRead_success decoded [OF parsed type] dispatch_offer [OF cfg srv])
  show "connections_created (effects (OnRead X ec_success n text st)) = 1"
    using a
    by (simp add: OnRead_success counts_simple decoded [OF parsed type] dispatch_offer [OF cfg srv])
next
  assume "c_str t \<noteq> ''offer''"
  then show "fields (OnRead X ec_success n text st) = st"
    and "connections_created (effects (OnRead X ec_success n text st)) = 0"
    by (simp_all add: OnRead_success counts_simple decoded [OF parsed type] dispatch_not_offer)
next
  assume a: "c_str t = ''update'' \<and> Option.bind (at j ''sdp'') as_string = Some sdp \<and>
    connection st = Some c"
  then have sdp: "Option.bind (at j ''sdp'') as_string = Some sdp" by simp
  have "effects (on_update j st) = [SetOffer c (c_str sdp) update]"
    using a by (simp add: on_update_result [OF sdp] effects_def)
  then show "SetOffer c (c_str sdp) update \<in> set (effects (OnRead X ec_success n text st))"
    using a
    by (simp add: OnRead_success decoded [OF parsed type] dispatch_def then_DoRead)
qed

theorem offer_constructs_connection_witness:
  "connection (fields (OnRead example_externals ec_success 55 offer_frame negotiated_client)) =
     Some \<lparr>serial = 1, servers = []\<rparr> \<and>
   connections_created (effects (OnRead example_externals ec_success 55 offer_frame negotiated_client)) = 1 \<and>
   fields (OnRead example_externals ec_success 29 update_frame negotiated_client) = negotiated_client \<and>
   connections_created (effects (OnRead example_externals ec_success 29 update_frame negotiated_client)) = 0 \<and>
   SetOffer \<lparr>serial = 0, servers = []\<rparr> ''v=0'' update
     \<in> set (effects (OnRead example_externals ec_success 29 update_frame negotiated_client))"
proof -
  let ?offer = "JObject [(''type'', JString ''offer''),
                         (''config'', JObject [(''iceServers'', JArray [])]),
                         (''sdp'', JString ''v=0'')]"
  let ?update = "JObject [(''type'', JString ''update''), (''sdp'', JString ''v=0'')]"
  have p1: "json_parse example_externals offer_frame = Some ?offer"
    and p2: "json_parse example_externals update_frame = Some ?update"
    by (simp_all add: example_defs)
  have t1: "Option.bind (at ?offer ''type'') as_string = Some ''offer''"
    and t2: "Option.bind (at ?update ''type'') as_string = Some ''update''"
    by (simp_all add: at_def find_member_def)
  show ?thesis
    using offer_constructs_connection [OF p1 t1,
        where jconfig = "JObject [(''iceServers'', JArray [])]" and ice_servers = "[]"
          and n = 55 and st = negotiated_client]
      offer_constructs_connection [OF p2 t2,
        where sdp = "''v=0''" and c = "\<lparr>serial = 0, servers = []\<rparr>"
          and n = 29 and st = negotiated_client]
    by (simp add: c_str_def at_def find_member_def ice_servers_of_config_def example_defs)
qed

text \<open>
  C2 as stated fails: a second offer constructs a second Connection, which replaces the
  first in the client.
\<close>

theorem second_offer_counterexample:
  "connection (fields (run example_externals [ReadCompleted ec_success offer_frame] open_client)) =
     Some \<lparr>serial = 0, servers = []\<rparr> \<and>
   connection (fields (run example_externals
      [ReadCompleted ec_success offer_frame, ReadCompleted ec_success offer_frame] open_client)) =
     Some \<lparr>serial = 1, servers = []\<rparr> \<and>
   connections_created (effects (run example_externals
      [ReadCompleted ec_success offer_frame, ReadCompleted ec_success offer_frame] open_client)) = 2"
  by (simp add: example_defs OnRead_defs branch_defs result_defs ws_defs count_defs
      ice_servers_of_config_def at_def find_member_def c_str_def)

subsection \<open>Frames that cannot be decoded\<close>




subsection \<open>The read loop\<close>

text \<open>
  C5, as the code has it. A read completed with \<open>operation_aborted\<close> makes the handler
  return at once, with no log line and no read. A read completed with another error is
  logged and no read is issued. After a successful read, the handler issues exactly one
  read if it returns and none if it leaves by an exception or a null dereference; it
  returns on the ping path taken before the state is \<open>Connected\<close>, for a notify and for
  every unrecognized type. No completion issues more than one read, so a loop started with
  one outstanding read never has more than one.
\<close>

theorem read_completion_resubmits:
  "OnRead X operation_aborted n text st = (None, st, []) \<and>
   OnRead X (ec_failure k) n text st =
     (None, st, [Log LS_ERROR [Str ''Failed to read: ec='', Ec (ec_failure k)]]) \<and>
   (outcome (OnRead X ec_success n text st) = None \<longrightarrow>
      reads_issued (effects (OnRead X ec_success n text st)) = 1) \<and>
   (outcome (OnRead X ec_success n text st) \<noteq> None \<longrightarrow>
      reads_issued (effects (OnRead X ec_success n text st)) = 0) \<and>
   (json_parse X text = Some j \<and> Option.bind (at j ''type'') as_string = Some t \<and>
    ws st = Some w \<and> c_str t \<noteq> ''offer'' \<and> c_str t \<noteq> ''update'' \<and>
    (c_str t = ''ping'' \<longrightarrow> rtc_state st \<noteq> kIceConnectionConnected) \<longrightarrow>
      outcome (OnRead X ec_success n text st) = None) \<and>
   reads_issued (effects (OnRead X ec n text st)) \<le> 1 \<and>
   outstanding_reads X 1 completions st \<le> 1"
proof (intro conjI impI)
  show "OnRead X operation_aborted n text st = (None, st, [])"
    by (simp add: OnRead_def returns_def)
  show "OnRead X (ec_failure k) n text st =
      (None, st, [Log LS_ERROR [Str ''Failed to read: ec='', Ec (ec_failure k)]])"
    by (simp add: OnRead_def returns_def)
  show "reads_issued (effects (OnRead X ec n text st)) \<le> 1"
    by (simp add: OnRead_reads)
  show "outstanding_reads X 1 completions st \<le> 1"
    by (rule outstanding_reads_le) simp
next
  assume "outcome (OnRead X ec_success n text st) = None"
  then show "reads_issued (effects (OnRead X ec_success n text st)) = 1"
    by (simp add: OnRead_reads)
next
  assume "outcome (OnRead X ec_success n text st) \<noteq> None"
  then show "reads_issued (effects (OnRead X ec_success n text st)) = 0"
    by (simp add: OnRead_reads)
next
  assume a: "json_parse X text = Some j \<and> Option.bind (at j ''type'') as_string = Some t \<and>
    ws st = Some w \<and> c_str t \<noteq> ''offer'' \<and> c_str t \<noteq> ''update'' \<and>
    (c_str t = ''ping'' \<longrightarrow> rtc_state st \<noteq> kIceConnectionConnected)"
  then have parsed: "json_parse X text = Some j"
    and type: "Option.bind (at j ''type'') as_string = Some t" by simp_all
  have notify: "outcome (on_notify_message text st) = None"
    by (simp add: on_notify_message_def result_defs)
  show "outcome (OnRead X ec_success n text st) = None"
    using a notify
    by (simp add: OnRead_success decoded [OF parsed type] dispatch_def then_DoRead DoRead_result
        other_branch_fields)
qed

theorem read_completion_resubmits_witness:
  "outcome (OnRead example_externals ec_success 55 offer_frame open_client) = None \<and>
   reads_issued (effects (OnRead example_externals ec_success 55 offer_frame open_client)) = 1 \<and>
   outcome (OnRead example_externals ec_success 8 truncated_frame open_client) \<noteq> None \<and>
   reads_issued (effects (OnRead example_externals ec_success 8 truncated_frame open_client)) = 0 \<and>
   outcome (OnRead example_externals ec_success 28 ping_stats_frame open_client) = None \<and>
   reads_issued (effects (OnRead example_externals ec_success 28 ping_stats_frame open_client)) = 1"
proof -
  have offer: "outcome (OnRead example_externals ec_success 55 offer_frame open_client) = None"
    and truncated:
      "outcome (OnRead example_externals ec_success 8 truncated_frame open_client) \<noteq> None"
    by (simp_all add: eval_defs)
  have ping: "json_parse example_externals ping_stats_frame =
      Some (JObject [(''type'', JString ''ping''), (''stats'', JBool True)]) \<and>
    Option.bind (at (JObject [(''type'', JString ''ping''), (''stats'', JBool True)]) ''type'')
      as_string = Some ''ping'' \<and>
    ws open_client = Some (SslWebsocket False) \<and> c_str ''ping'' \<noteq> ''offer'' \<and>
    c_str ''ping'' \<noteq> ''update'' \<and>
    (c_str ''ping'' = ''ping'' \<longrightarrow> rtc_state open_client \<noteq> kIceConnectionConnected)"
    by (simp add: example_defs at_def find_member_def c_str_def)
  show ?thesis
    using read_completion_resubmits [of example_externals 55 offer_frame open_client]
      read_completion_resubmits [of example_externals 8 truncated_frame open_client]
      read_completion_resubmits [of example_externals 28 ping_stats_frame open_client _
        "JObject [(''type'', JString ''ping''), (''stats'', JBool True)]" "''ping''"
        "SslWebsocket False"]
      offer truncated ping
    by simp
qed

text \<open>
  C5 as stated fails: a read that completes successfully with a text that is not JSON is
  followed by no read.
\<close>

theorem read_completion_counterexample:
  "reads_issued (effects (OnRead example_externals ec_success 8 ''not json'' open_client)) = 0"
  by (simp add: eval_defs)

subsection \<open>Callbacks from the Connection\<close>

text \<open>
  C9. \<open>OnIceConnectionStateChange\<close> changes no field and only posts the task that will
  set the state. \<open>OnIceCandidate\<close> posts nothing: the callback itself hands the
  candidate message to the transport.
\<close>

theorem OnIceCandidate_writes_directly:
  \<open>OnIceCandidate example_externals ''0'' 0 ''candidate:1'' negotiated_client =
     (None, negotiated_client, [WsWriteText ''{"type":"candidate","candidate":"candidate:1"}'']) \<and>
   OnIceConnectionStateChange kIceConnectionConnected open_client =
     (None, open_client,
      [Log LS_INFO [Str ''OnIceConnectionStateChange'', Str '' state:'',
                    State kIceConnectionConnected],
       Post kIceConnectionConnected])\<close>
  by (simp add: OnIceCandidate_def OnIceConnectionStateChange_def candidate_message_def
      description_message_def pong_message_def example_defs result_defs ws_defs)

subsection \<open>Updates and the absent Connection\<close>

text \<open>
  C10. An update with a string \<open>sdp\<close> dereferences \<open>connection_\<close> without a check: with
  no Connection held the handler ends in a null dereference, and with one held it calls
  \<open>SetOffer\<close> on it and issues the next read. No Connection is held by a client just
  created, nor by one that has been released.
\<close>

theorem update_dereferences_connection:
  assumes parsed: "json_parse X text = Some j"
    and type: "Option.bind (at j ''type'') as_string = Some t"
    and upd: "c_str t = ''update''"
    and sdp: "Option.bind (at j ''sdp'') as_string = Some sdp"
  shows "(connection st = None \<longrightarrow>
            OnRead X ec_success n text st =
              (Some NullDereference, st,
               [Log LS_INFO [Str ''OnRead'', Str '': text='', Str text]])) \<and>
         (connection st = Some c \<and> ws st = Some w \<longrightarrow>
            OnRead X ec_success n text st =
              (None, st, [Log LS_INFO [Str ''OnRead'', Str '': text='', Str text],
                          SetOffer c (c_str sdp) update, WsRead])) \<and>
         OnRead X ec_success n text (Release st) =
           (Some NullDereference, Release st,
            [Log LS_INFO [Str ''OnRead'', Str '': text='', Str text]]) \<and>
         connection (Create mgr cfg notify) = None"
proof -
  have absent: "OnRead X ec_success n text s =
      (Some NullDereference, s, [Log LS_INFO [Str ''OnRead'', Str '': text='', Str text]])"
    if "connection s = None" for s
    using that upd
    by (simp add: OnRead_def decoded [OF parsed type] dispatch_def on_update_result [OF sdp]
        result_defs)
  have present: "OnRead X ec_success n text st =
      (None, st, [Log LS_INFO [Str ''OnRead'', Str '': text='', Str text],
                  SetOffer c (c_str sdp) update, WsRead])"
    if "connection st = Some c" and "ws st = Some w"
    using that upd
    by (simp add: OnRead_def decoded [OF parsed type] dispatch_def on_update_result [OF sdp]
        result_defs ws_defs)
  have released: "connection (Release st) = None"
    by (simp add: Release_def)
  show ?thesis
    using absent [of st] absent [OF released] present
    by (simp add: Create_def)
qed

theorem update_dereferences_connection_witness:
  "fields (run example_externals [CallConnect, ConnectCompleted ec_success] fresh_client) = open_client \<and>
   connection open_client = None \<and>
   OnRead example_externals ec_success 29 update_frame open_client =
     (Some NullDereference, open_client,
      [Log LS_INFO [Str ''OnRead'', Str '': text='', Str update_frame]]) \<and>
   OnRead example_externals ec_success 29 update_frame negotiated_client =
     (None, negotiated_client,
      [Log LS_INFO [Str ''OnRead'', Str '': text='', Str update_frame],
       SetOffer \<lparr>serial = 0, servers = []\<rparr> ''v=0'' update, WsRead]) \<and>
   OnRead example_externals ec_success 29 update_frame (Release negotiated_client) =
     (Some NullDereference, Release negotiated_client,
      [Log LS_INFO [Str ''OnRead'', Str '': text='', Str update_frame]])"
proof -
  let ?update = "JObject [(''type'', JString ''update''), (''sdp'', JString ''v=0'')]"
  have parsed: "json_parse example_externals update_frame = Some ?update"
    by (simp add: example_defs)
  have type: "Option.bind (at ?update ''type'') as_string = Some ''update''"
    and sdp: "Option.bind (at ?update ''sdp'') as_string = Some ''v=0''"
    by (simp_all add: at_def find_member_def)
  have upd: "c_str ''update'' = ''update''" and v0: "c_str ''v=0'' = ''v=0''"
    by (simp_all add: c_str_def)
  have reach:
    "fields (run example_externals [CallConnect, ConnectCompleted ec_success] fresh_client) =
       open_client"
    by (simp add: example_defs Connect_def OnConnect_def DoSendConnect_def connect_message_value
        result_defs ws_defs Let_def)
  have held: "connection negotiated_client = Some \<lparr>serial = 0, servers = []\<rparr>"
    "ws negotiated_client = Some (SslWebsocket False)" "connection open_client = None"
    by (simp_all add: example_defs)
  show ?thesis
    using update_dereferences_connection [OF parsed type upd sdp,
        where st = open_client and n = 29]
      update_dereferences_connection [OF parsed type upd sdp,
        where st = negotiated_client and n = 29 and c = "\<lparr>serial = 0, servers = []\<rparr>"
          and w = "SslWebsocket False"]
      reach held
    by (simp add: v0)
qed

end
